theory Spec2Isabelle
  imports Complex_Main "HOL-Library.AList"
begin

section \<open>JavaScript values\<close>

text \<open>
  BaseFrame.js is written against the browser's document, jQuery and the jQuery UI dialog
  widget. The program state is a record \<open>world\<close>: the two properties the file keeps on
  the global object \<open>openmdao\<close> (\<open>uniqueID\<close> and \<open>frames\<close>), the frame objects, the
  elements of the page, the window size and the queue of pending timeouts.

  Pixel measurements are real numbers: the arithmetic of the file (a product with 0.8, sums
  and differences of offsets and sizes) is read exactly, without the rounding of JavaScript's
  doubles.
\<close>

type_synonym eid = nat
type_synonym ref = nat

text \<open>A jQuery object is the list of the elements it wraps.\<close>

type_synonym jq = "eid list"

type_synonym menu_desc = "string list"

datatype exn = TypeError | Exception string

datatype outcome = Normal | Throw exn

text \<open>
  Truthiness of a value that is \<open>null\<close>/\<open>undefined\<close> (\<open>None\<close>) or a string: only a
  non-empty string is truthy.
\<close>

definition truthy :: "string option \<Rightarrow> bool" where
  "truthy s = (case s of None \<Rightarrow> False | Some t \<Rightarrow> t \<noteq> [])"





text \<open>A measurement read from an empty jQuery object is \<open>null\<close>, which arithmetic and
  comparisons take as 0.\<close>

definition to_number :: "real option \<Rightarrow> real" where
  "to_number v = (case v of None \<Rightarrow> 0 | Some x \<Rightarrow> x)"

section \<open>The page\<close>

datatype location = Detached | Root | Under eid

datatype handler = ReturnFalse | ResizeContents jq | PopOut ref

datatype extent = Auto | Px real

datatype dlg_position = Center | At real real

text \<open>
  The options of a jQuery UI dialog that the file sets. \<open>on_close\<close> names the frame whose
  \<open>close\<close> the handler calls; \<open>position\<close> holds the array as the file passes it, first
  component first; \<open>wrapper\<close> is the element the widget puts around the content.
\<close>

record dialog_widget =
  modal :: bool
  dlg_title :: "string option"
  on_close :: "ref option"
  dlg_height :: extent
  dlg_width :: extent
  position :: dlg_position
  wrapper :: eid

text \<open>
  An element with its box: \<open>height\<close> and \<open>width\<close> are the content box that jQuery's
  \<open>height()\<close> and \<open>width()\<close> read and write, the inner size adds the padding, the outer
  size adds the border as well. \<open>offset_top\<close> and \<open>offset_left\<close> are what \<open>offset()\<close>
  reports. The layout engine is outside the model: a measurement stays as it was last
  reported or written.
\<close>

record element =
  tag :: string
  attrs :: "(string \<times> string) list"
  classes :: "string list"
  parent :: location
  content :: string
  shown :: bool
  overflow_hidden :: bool
  height :: real
  width :: real
  padding_v :: real
  padding_h :: real
  border_v :: real
  border_h :: real
  offset_top :: real
  offset_left :: real
  dialog :: "dialog_widget option"
  bound :: "(string \<times> handler) list"

text \<open>
  The own-property test and the \<open>typeof\<close> test of \<open>close\<close> read the \<open>destructor\<close>
  property of the instance: it is missing, found on the prototype only, or an own property;
  the flag says whether the value is a function.
\<close>

datatype slot = No_Property | On_Prototype bool | Own bool

record frame =
  frame_id :: "string option"
  elm :: "jq option"
  par :: "jq option"
  title :: "string option"
  menu :: "menu_desc option"
  destructor :: slot

text \<open>
  \<open>calls\<close> is a ghost field: it records each entry into \<open>popup\<close> and each invocation of
  a method that a subclass supplies (\<open>destructor\<close>, \<open>update\<close>). No definition reads it.
\<close>

datatype call = Popup ref "string option" | Destructor ref | Update ref

record world =
  uniqueID :: "nat option"
  frames :: "(string \<times> ref) list option"
  objs :: "ref \<Rightarrow> frame"
  elements :: "eid \<Rightarrow> element"
  next_eid :: eid
  body :: eid
  window_innerHeight :: nat
  window_innerWidth :: nat
  timers :: "(nat \<times> jq) list"
  menus :: "(string \<times> menu_desc) list"
  triggered :: "(eid \<times> string) list"
  calls :: "call list"

definition upd :: "eid \<Rightarrow> (element \<Rightarrow> element) \<Rightarrow> world \<Rightarrow> world" where
  "upd e f w = w\<lparr>elements := (elements w)(e := f (elements w e))\<rparr>"

definition upd_frame :: "ref \<Rightarrow> (frame \<Rightarrow> frame) \<Rightarrow> world \<Rightarrow> world" where
  "upd_frame r f w = w\<lparr>objs := (objs w)(r := f (objs w r))\<rparr>"

definition new_element :: "string \<Rightarrow> (string \<times> string) list \<Rightarrow> string \<Rightarrow> element" where
  "new_element tg ats c =
     \<lparr>tag = tg, attrs = ats, classes = [], parent = Detached, content = c, shown = True,
      overflow_hidden = False, height = 0, width = 0, padding_v = 0, padding_h = 0,
      border_v = 0, border_h = 0, offset_top = 0, offset_left = 0, dialog = None,
      bound = []\<rparr>"

text \<open>Building an element from markup: it gets the next free identity.\<close>

definition create :: "element \<Rightarrow> world \<Rightarrow> eid \<times> world" where
  "create el w =
     (next_eid w, w\<lparr>elements := (elements w)(next_eid w := el), next_eid := Suc (next_eid w)\<rparr>)"

subsection \<open>jQuery\<close>





definition jq_height :: "world \<Rightarrow> jq \<Rightarrow> real option" where
  "jq_height w j = (case j of [] \<Rightarrow> None | e # _ \<Rightarrow> Some (height (elements w e)))"

definition jq_width :: "world \<Rightarrow> jq \<Rightarrow> real option" where
  "jq_width w j = (case j of [] \<Rightarrow> None | e # _ \<Rightarrow> Some (width (elements w e)))"

definition jq_innerHeight :: "world \<Rightarrow> jq \<Rightarrow> real option" where
  "jq_innerHeight w j =
     (case j of [] \<Rightarrow> None
      | e # _ \<Rightarrow> Some (height (elements w e) + padding_v (elements w e)))"

definition jq_innerWidth :: "world \<Rightarrow> jq \<Rightarrow> real option" where
  "jq_innerWidth w j =
     (case j of [] \<Rightarrow> None
      | e # _ \<Rightarrow> Some (width (elements w e) + padding_h (elements w e)))"

definition jq_outerHeight :: "world \<Rightarrow> jq \<Rightarrow> real option" where
  "jq_outerHeight w j =
     (case j of [] \<Rightarrow> None
      | e # _ \<Rightarrow>
          Some (height (elements w e) + padding_v (elements w e) + border_v (elements w e)))"

definition jq_outerWidth :: "world \<Rightarrow> jq \<Rightarrow> real option" where
  "jq_outerWidth w j =
     (case j of [] \<Rightarrow> None
      | e # _ \<Rightarrow>
          Some (width (elements w e) + padding_h (elements w e) + border_h (elements w e)))"

definition jq_offset :: "world \<Rightarrow> jq \<Rightarrow> (real \<times> real) option" where
  "jq_offset w j =
     (case j of [] \<Rightarrow> None
      | e # _ \<Rightarrow> Some (offset_top (elements w e), offset_left (elements w e)))"

text \<open>The setters write every element of the object; a negative size is ignored.\<close>

definition jq_set_height :: "real \<Rightarrow> jq \<Rightarrow> world \<Rightarrow> world" where
  "jq_set_height v j w =
     (if 0 \<le> v then fold (\<lambda>e. upd e (\<lambda>el. el\<lparr>height := v\<rparr>)) j w else w)"

definition jq_set_width :: "real \<Rightarrow> jq \<Rightarrow> world \<Rightarrow> world" where
  "jq_set_width v j w =
     (if 0 \<le> v then fold (\<lambda>e. upd e (\<lambda>el. el\<lparr>width := v\<rparr>)) j w else w)"

definition jq_bind :: "string \<Rightarrow> handler \<Rightarrow> jq \<Rightarrow> world \<Rightarrow> world" where
  "jq_bind ev h j w = fold (\<lambda>e. upd e (\<lambda>el. el\<lparr>bound := bound el @ [(ev, h)]\<rparr>)) j w"

definition jq_show :: "jq \<Rightarrow> world \<Rightarrow> world" where
  "jq_show j w = fold (\<lambda>e. upd e (\<lambda>el. el\<lparr>shown := True\<rparr>)) j w"

text \<open>\<open>remove()\<close> takes the elements out of the document and drops their handlers.\<close>

definition jq_remove :: "jq \<Rightarrow> world \<Rightarrow> world" where
  "jq_remove j w = fold (\<lambda>e. upd e (\<lambda>el. el\<lparr>parent := Detached, bound := []\<rparr>)) j w"


text \<open>
  \<open>appendTo\<close> moves the elements under the last target and puts a copy of them under each
  target before it; with no target nothing moves. \<open>append\<close> with a markup string builds
  the element anew under every target.
\<close>

fun jq_appendTo :: "jq \<Rightarrow> jq \<Rightarrow> world \<Rightarrow> world" where
  "jq_appendTo j [] w = w"
| "jq_appendTo j [p] w = fold (\<lambda>e. upd e (\<lambda>el. el\<lparr>parent := Under p\<rparr>)) j w"
| "jq_appendTo j (p # ps) w =
     jq_appendTo j ps
       (fold (\<lambda>e w'. snd (create ((elements w' e)\<lparr>parent := Under p\<rparr>) w')) j w)"


fun below :: "nat \<Rightarrow> (eid \<Rightarrow> element) \<Rightarrow> eid \<Rightarrow> eid \<Rightarrow> bool" where
  "below 0 els a x = False"
| "below (Suc n) els a x =
     (case parent (els x) of Under p \<Rightarrow> p = a \<or> below n els a p | _ \<Rightarrow> False)"

definition jq_find :: "world \<Rightarrow> jq \<Rightarrow> string \<Rightarrow> jq" where
  "jq_find w j c =
     filter (\<lambda>x. c \<in> set (classes (elements w x)) \<and>
                 list_ex (\<lambda>a. below (next_eid w) (elements w) a x) j)
       [0..<next_eid w]"

definition jq_children :: "world \<Rightarrow> jq \<Rightarrow> string \<Rightarrow> jq" where
  "jq_children w j c =
     filter (\<lambda>x. c \<in> set (classes (elements w x)) \<and>
                 list_ex (\<lambda>a. parent (elements w x) = Under a) j)
       [0..<next_eid w]"

definition jq_trigger :: "string \<Rightarrow> jq \<Rightarrow> world \<Rightarrow> world" where
  "jq_trigger ev j w = w\<lparr>triggered := triggered w @ map (\<lambda>e. (e, ev)) j\<rparr>"

subsection \<open>The jQuery UI dialog\<close>

text \<open>
  The dialog widget as jQuery UI 1.8 defines it. Creating the widget on an element puts the
  element, shown, into a new wrapper under the body; calling \<open>dialog\<close> with options on an
  element that has the widget sets the options. \<open>destroy\<close> hides the element, moves it
  under the body and removes the wrapper. A method called on an element without the widget
  does nothing.
\<close>

datatype option_setting =
  Modal bool | Title "string option" | Close ref | Height extent | Width extent
  | Position real real

fun set_option :: "dialog_widget \<Rightarrow> option_setting \<Rightarrow> dialog_widget" where
  "set_option d (Modal b) = d\<lparr>modal := b\<rparr>"
| "set_option d (Title t) = d\<lparr>dlg_title := t\<rparr>"
| "set_option d (Close r) = d\<lparr>on_close := Some r\<rparr>"
| "set_option d (Height h) = d\<lparr>dlg_height := h\<rparr>"
| "set_option d (Width x) = d\<lparr>dlg_width := x\<rparr>"
| "set_option d (Position a b) = d\<lparr>position := At a b\<rparr>"

definition default_dialog :: "eid \<Rightarrow> dialog_widget" where
  "default_dialog wr =
     \<lparr>modal = False, dlg_title = None, on_close = None, dlg_height = Auto,
      dlg_width = Px 300, position = Center, wrapper = wr\<rparr>"

definition dialog1 :: "option_setting list \<Rightarrow> eid \<Rightarrow> world \<Rightarrow> world" where
  "dialog1 opts e w =
     (case dialog (elements w e) of
        Some d \<Rightarrow> upd e (\<lambda>el. el\<lparr>dialog := Some (foldl set_option d opts)\<rparr>) w
      | None \<Rightarrow>
          (let (wr, w1) = create ((new_element ''div'' [] [])\<lparr>parent := Under (body w)\<rparr>) w
           in upd e (\<lambda>el. el\<lparr>dialog := Some (foldl set_option (default_dialog wr) opts),
                              parent := Under wr, shown := True\<rparr>) w1))"

definition jq_dialog :: "option_setting list \<Rightarrow> jq \<Rightarrow> world \<Rightarrow> world" where
  "jq_dialog opts j w = fold (dialog1 opts) j w"

definition destroy1 :: "eid \<Rightarrow> world \<Rightarrow> world" where
  "destroy1 e w =
     (case dialog (elements w e) of
        None \<Rightarrow> w
      | Some d \<Rightarrow>
          upd (wrapper d) (\<lambda>el. el\<lparr>parent := Detached\<rparr>)
            (upd e (\<lambda>el. el\<lparr>dialog := None, shown := False, parent := Under (body w)\<rparr>) w))"

definition jq_dialog_destroy :: "jq \<Rightarrow> world \<Rightarrow> world" where
  "jq_dialog_destroy j w = fold destroy1 j w"

definition jq_dialog_option_title :: "string option \<Rightarrow> jq \<Rightarrow> world \<Rightarrow> world" where
  "jq_dialog_option_title t j w =
     fold (\<lambda>e. upd e (\<lambda>el. el\<lparr>dialog := map_option (\<lambda>d. d\<lparr>dlg_title := t\<rparr>) (dialog el)\<rparr>)) j w"

section \<open>BaseFrame.js\<close>

subsection \<open>Methods supplied by subclasses\<close>

text \<open>
  \<open>destructor\<close> and an overriding \<open>update\<close> are written outside this file. A frame
  operation takes them as parameters: for each frame object, the effect of the method on
  the state and whether it returns or throws. An invocation is recorded in the ghost field,
  which the method itself cannot change.
\<close>

definition call_hook :: "call \<Rightarrow> (world \<Rightarrow> outcome \<times> world) \<Rightarrow> world \<Rightarrow> outcome \<times> world" where
  "call_hook c h w = (case h w of (r, w') \<Rightarrow> (r, w'\<lparr>calls := calls w @ [c]\<rparr>))"

subsection \<open>The constructor\<close>

definition BaseFrame :: "ref \<Rightarrow> world \<Rightarrow> world" where
  "BaseFrame this w =
     upd_frame this
       (\<lambda>f. f\<lparr>frame_id := None, elm := None, par := None, title := Some [], menu := None\<rparr>) w"

subsection \<open>popup\<close>

definition resize_grid :: "eid \<Rightarrow> eid \<Rightarrow> world \<Rightarrow> world" where
  "resize_grid panel grid w =
     (let w1 = upd panel (\<lambda>el. el\<lparr>overflow_hidden := True\<rparr>) w;
          grid_hdr = jq_children w1 [grid] ''slick-header'';
          grid_vwp = jq_children w1 [grid] ''slick-viewport'';
          w2 = jq_set_height
                 (to_number (jq_innerHeight w1 [panel]) - to_number (jq_outerHeight w1 grid_hdr))
                 grid_vwp w1
      in jq_set_width (to_number (jq_innerWidth w2 [panel])) grid_vwp w2)"

definition resize_panel :: "real \<Rightarrow> real \<Rightarrow> eid \<Rightarrow> world \<Rightarrow> world" where
  "resize_panel pane_height pane_width panel w =
     (let w1 = jq_set_height pane_height [panel] w;
          w2 = jq_set_width pane_width [panel] w1
      in fold (resize_grid panel) (jq_find w2 [panel] ''slickgrid'') w2)"

definition resize_contents :: "jq \<Rightarrow> world \<Rightarrow> world" where
  "resize_contents dlg w =
     (let tabs_height = jq_height w (jq_find w dlg ''ui-tabs-nav'');
          pane_height = to_number (jq_height w dlg) - to_number tabs_height;
          pane_width = to_number (jq_width w dlg)
      in fold (resize_panel pane_height pane_width) (jq_find w dlg ''ui-tabs-panel'') w)"

text \<open>The two tests headed "make sure the popup fits in the window".\<close>

definition fit_in_window :: "jq \<Rightarrow> world \<Rightarrow> world" where
  "fit_in_window j w =
     (let w1 = (if to_number (jq_height w j) > real (window_innerHeight w) * 0.8
                then jq_set_height (real (window_innerHeight w) * 0.8) j w else w)
      in if to_number (jq_width w1 j) > real (window_innerWidth w1) * 0.8
         then jq_set_width (real (window_innerWidth w1) * 0.8) j w1 else w1)"

definition popup :: "ref \<Rightarrow> string option \<Rightarrow> world \<Rightarrow> outcome \<times> world" where
  "popup this t w0 =
     (let w = w0\<lparr>calls := calls w0 @ [Popup this t]\<rparr> in
      case elm (objs w this) of
        None \<Rightarrow> (Throw TypeError, w)
      | Some dlg \<Rightarrow>
          (let w1 = jq_dialog [Modal False, Title t, Close this, Height Auto, Width Auto] dlg w;
               w2 = jq_bind ''dialogresizestop'' (ResizeContents dlg) dlg w1
           in case elm (objs w2 this) of
                None \<Rightarrow> (Throw TypeError, w2)
              | Some e \<Rightarrow>
                  (let w3 = fit_in_window e w2
                   in (Normal, w3\<lparr>timers := timers w3 @ [(120, dlg)]\<rparr>))))"

text \<open>The function that \<open>popup\<close> hands to \<open>setTimeout\<close>, with the \<open>dlg\<close> it closes over.\<close>

definition popup_timeout :: "jq \<Rightarrow> world \<Rightarrow> outcome \<times> world" where
  "popup_timeout dlg w =
     (case jq_offset w dlg of
        None \<Rightarrow> (Throw TypeError, w)
      | Some (off_top, off_left) \<Rightarrow>
          (let top = (if off_top < 0 then 0
                      else if off_top + to_number (jq_outerHeight w dlg)
                                > real (window_innerHeight w)
                      then real (window_innerHeight w) - to_number (jq_outerHeight w dlg)
                      else off_top);
               left = (if off_left < 0 then 0
                       else if off_left + to_number (jq_outerWidth w dlg)
                                 > real (window_innerWidth w)
                       then real (window_innerWidth w) - to_number (jq_outerWidth w dlg)
                       else off_left);
               w1 = (if top \<noteq> off_top \<or> left \<noteq> off_left
                     then jq_dialog [Position top left] dlg w else w)
           in (Normal, resize_contents dlg w1)))"

text \<open>The browser runs the oldest pending timeout.\<close>

definition run_timeout :: "world \<Rightarrow> outcome \<times> world" where
  "run_timeout w =
     (case timers w of
        [] \<Rightarrow> (Normal, w)
      | (delay, dlg) # ts \<Rightarrow> popup_timeout dlg (w\<lparr>timers := ts\<rparr>))"

subsection \<open>setTitle\<close>

definition setTitle :: "ref \<Rightarrow> string option \<Rightarrow> world \<Rightarrow> outcome \<times> world" where
  "setTitle this t w =
     (if truthy t then
        (let w1 = upd_frame this (\<lambda>f. f\<lparr>title := t\<rparr>) w in
         case elm (objs w1 this) of
           None \<Rightarrow> (Throw TypeError, w1)
         | Some e \<Rightarrow> (Normal, jq_dialog_option_title t e w1))
      else (Normal, w))"

subsection \<open>close\<close>

definition has_own_destructor :: "frame \<Rightarrow> bool" where
  "has_own_destructor f = (case destructor f of Own b \<Rightarrow> True | _ \<Rightarrow> False)"

definition destructor_is_function :: "frame \<Rightarrow> bool" where
  "destructor_is_function f =
     (case destructor f of Own b \<Rightarrow> b | On_Prototype b \<Rightarrow> b | No_Property \<Rightarrow> False)"

text \<open>The first statement of \<open>close\<close>: the teardown hook, when the instance has one.\<close>

definition teardown :: "(ref \<Rightarrow> world \<Rightarrow> outcome \<times> world) \<Rightarrow> ref \<Rightarrow> world \<Rightarrow> outcome \<times> world" where
  "teardown D this w =
     (if has_own_destructor (objs w this) \<and> destructor_is_function (objs w this)
      then call_hook (Destructor this) (D this) w
      else (Normal, w))"

definition close :: "(ref \<Rightarrow> world \<Rightarrow> outcome \<times> world) \<Rightarrow> ref \<Rightarrow> world \<Rightarrow> outcome \<times> world" where
  "close D this w0 =
     (case teardown D this w0 of
        (Throw x, w) \<Rightarrow> (Throw x, w)
      | (Normal, w) \<Rightarrow>
          (case par (objs w this) of
             Some p \<Rightarrow>
               (case elm (objs w this) of
                  None \<Rightarrow> (Throw TypeError, w)
                | Some e \<Rightarrow> (Normal, jq_show e (jq_appendTo e p (jq_dialog_destroy e w))))
           | None \<Rightarrow>
               (case elm (objs w this) of
                  None \<Rightarrow> (Throw TypeError, w)
                | Some e \<Rightarrow> (Normal, jq_remove e (jq_dialog_destroy e w)))))"

text \<open>The \<open>close\<close> handler that \<open>popup\<close> gives the dialog.\<close>

definition on_dialog_close :: "(ref \<Rightarrow> world \<Rightarrow> outcome \<times> world) \<Rightarrow> ref \<Rightarrow> world \<Rightarrow> outcome \<times> world" where
  "on_dialog_close D this w0 =
     (case close D this w0 of
        (Throw x, w) \<Rightarrow> (Throw x, w)
      | (Normal, w) \<Rightarrow> (Normal, jq_trigger ''layoutresizeall'' [body w] w))"

subsection \<open>update\<close>

definition BaseFrame_update :: "ref \<Rightarrow> world \<Rightarrow> outcome \<times> world" where
  "BaseFrame_update this w = (Normal, w)"




subsection \<open>init\<close>









text \<open>The click handler of the "Pop Out" button.\<close>

definition on_pop_out :: "ref \<Rightarrow> world \<Rightarrow> outcome \<times> world" where
  "on_pop_out this w = popup this (title (objs w this)) w"

section \<open>Reading the state\<close>




text \<open>
  Most calls into jQuery change the elements of the page and nothing else; \<open>page_change\<close>
  relates two states that agree on everything but the elements and the rendered menus.
\<close>

definition page_change :: "world \<Rightarrow> world \<Rightarrow> bool" where
  "page_change w w' =
     (uniqueID w' = uniqueID w \<and> frames w' = frames w \<and> objs w' = objs w \<and>
      body w' = body w \<and> window_innerHeight w' = window_innerHeight w \<and>
      window_innerWidth w' = window_innerWidth w \<and> timers w' = timers w \<and>
      triggered w' = triggered w \<and> calls w' = calls w)"

section \<open>Example states\<close>

text \<open>
  A page of 800 by 600 pixels: the body, a docking container, and under it the element
  \<open>code\<close>, 200 by 100 pixels, which holds a child and lies partly above the top and past
  the right edge of the window. Frame objects are as the constructor leaves them.
\<close>

definition blank_frame :: frame where
  "blank_frame =
     \<lparr>frame_id = None, elm = None, par = None, title = Some [], menu = None,
      destructor = No_Property\<rparr>"

definition page_elements :: "eid \<Rightarrow> element" where
  "page_elements =
     ((\<lambda>x. new_element [] [] [])
       (0 := (new_element ''body'' [] [])\<lparr>parent := Root, height := 600, width := 800\<rparr>,
        1 := (new_element ''div'' [(''id'', ''dock'')] [])\<lparr>parent := Under 0\<rparr>,
        2 := (new_element ''div'' [(''id'', ''code'')] ''old'')
               \<lparr>parent := Under 1, height := 100, width := 200,
                offset_top := - 20, offset_left := 700\<rparr>,
        3 := (new_element ''span'' [] ''child'')\<lparr>parent := Under 2\<rparr>))"


text \<open>
  The same page with two frames open as dialogs: frame 0 was built on \<open>code\<close>, whose
  parent was the docking container, and frame 3 on a generated element \<open>BaseFrame1\<close>.
\<close>

definition desk_elements :: "eid \<Rightarrow> element" where
  "desk_elements =
     (page_elements
       (2 := (new_element ''div'' [(''id'', ''code'')] [])
               \<lparr>parent := Under 4, height := 100, width := 200,
                offset_top := - 20, offset_left := 700,
                dialog := Some ((default_dialog 4)
                            \<lparr>dlg_title := Some ''Code'', on_close := Some 0, dlg_width := Auto\<rparr>),
                bound := [(''contextmenu'', ReturnFalse),
                          (''dialogresizestop'', ResizeContents [2])]\<rparr>,
        3 := new_element ''span'' [] ''child'',
        4 := (new_element ''div'' [] [])\<lparr>parent := Under 0\<rparr>,
        5 := (new_element ''div'' [(''id'', ''BaseFrame1'')] [])
               \<lparr>parent := Under 6,
                dialog := Some ((default_dialog 6)
                            \<lparr>dlg_title := Some ''New'', on_close := Some 3, dlg_width := Auto\<rparr>),
                bound := [(''dialogresizestop'', ResizeContents [5]),
                          (''contextmenu'', ReturnFalse)]\<rparr>,
        6 := (new_element ''div'' [] [])\<lparr>parent := Under 0\<rparr>))"

definition desk :: world where
  "desk =
     \<lparr>uniqueID = Some 1, frames = Some [(''code'', 0), (''BaseFrame1'', 3)],
      objs = ((\<lambda>r. blank_frame)
               (0 := \<lparr>frame_id = Some ''code'', elm = Some [2], par = Some [1],
                      title = Some ''Code'', menu = None, destructor = No_Property\<rparr>,
                3 := \<lparr>frame_id = Some ''BaseFrame1'', elm = Some [5], par = None,
                      title = Some ''New'', menu = None, destructor = No_Property\<rparr>)),
      elements = desk_elements, next_eid = 7, body = 0, window_innerHeight = 600,
      window_innerWidth = 800, timers = [(120, [2]), (120, [5])], menus = [],
      triggered = [], calls = [Popup 0 (Some ''Code''), Popup 3 (Some ''New'')]\<rparr>"

text \<open>
  Subclass methods for the examples: one that returns without an effect, and one that
  throws on frame 0. In \<open>hooked\<close> frame 0 carries a \<open>destructor\<close> of its own.
\<close>

definition no_hook :: "ref \<Rightarrow> world \<Rightarrow> outcome \<times> world" where
  "no_hook r w = (Normal, w)"

definition failing_hook :: "ref \<Rightarrow> world \<Rightarrow> outcome \<times> world" where
  "failing_hook r w = (if r = 0 then (Throw (Exception ''failed''), w) else (Normal, w))"

definition hooked :: world where
  "hooked = upd_frame 0 (\<lambda>f. f\<lparr>destructor := Own True\<rparr>) desk"

section \<open>Properties\<close>

subsection \<open>The example states\<close>



lemma desk_frame:
  "elm (objs desk 0) = Some [2]" "par (objs desk 0) = Some [1]"
  "destructor (objs desk 0) = No_Property" "dialog (elements desk 2) \<noteq> None"
  "elm (objs desk 3) = Some [5]" "par (objs desk 3) = None"
  "destructor (objs desk 3) = No_Property" "uniqueID desk = Some 1"
  "frames desk = Some [(''code'', 0), (''BaseFrame1'', 3)]"
  by (simp_all add: desk_def desk_elements_def)

lemma hooked_frame:
  "has_own_destructor (objs hooked 0)" "destructor_is_function (objs hooked 0)"
  by (simp_all add: hooked_def upd_frame_def has_own_destructor_def destructor_is_function_def)

subsection \<open>Calls that change the page only\<close>

lemma page_change_refl: "page_change w w"
  by (simp add: page_change_def)

lemma page_change_trans: "page_change w w1 \<Longrightarrow> page_change w1 w2 \<Longrightarrow> page_change w w2"
  by (simp add: page_change_def)

lemma page_change_fold:
  assumes "\<And>a s. page_change s (g a s)"
  shows "page_change w (fold g xs w)"
proof (induction xs arbitrary: w)
  case Nil
  show ?case by (simp add: page_change_refl)
next
  case (Cons a xs)
  show ?case using page_change_trans [OF assms [of w a] Cons.IH [of "g a w"]] by simp
qed

lemma upd_page: "page_change w (upd e f w)"
  by (simp add: page_change_def upd_def)

lemma create_page: "page_change w (snd (create el w))"
  by (simp add: page_change_def create_def)


lemma jq_show_page: "page_change w (jq_show j w)"
  unfolding jq_show_def by (rule page_change_fold) (rule upd_page)

lemma jq_remove_page: "page_change w (jq_remove j w)"
  unfolding jq_remove_def by (rule page_change_fold) (rule upd_page)





lemma jq_appendTo_page: "page_change w (jq_appendTo j ps w)"
proof (induction j ps w rule: jq_appendTo.induct)
  case (1 j w)
  show ?case by (simp add: page_change_refl)
next
  case (2 j p w)
  show ?case by (simp add: page_change_fold upd_page)
next
  case (3 j p v va w)
  have "page_change w (fold (\<lambda>e w'. snd (create ((elements w' e)\<lparr>parent := Under p\<rparr>) w')) j w)"
    by (rule page_change_fold) (rule create_page)
  from page_change_trans [OF this 3] show ?case by simp
qed



lemma destroy1_page: "page_change w (destroy1 e w)"
  unfolding destroy1_def
  by (cases "dialog (elements w e)") (simp_all add: page_change_def upd_def)

lemma jq_dialog_destroy_page: "page_change w (jq_dialog_destroy j w)"
  unfolding jq_dialog_destroy_def by (rule page_change_fold) (rule destroy1_page)

lemma jq_dialog_option_title_page: "page_change w (jq_dialog_option_title t j w)"
  unfolding jq_dialog_option_title_def by (rule page_change_fold) (rule upd_page)



subsection \<open>What the layout pass leaves alone\<close>








subsection \<open>The deferred bounds check\<close>



subsection \<open>The size limit\<close>



subsection \<open>setTitle\<close>

text \<open>
  Claim C5. \<open>setTitle\<close> called with \<open>null\<close> or with the empty string returns and leaves
  the whole state as it was, so neither the stored title nor the title the dialog shows
  changes. Called with a non-empty string it stores that string as the frame's title, and
  when the frame's element carries the dialog widget it returns with the dialog's title
  set to the same string.
\<close>

theorem setTitle_effect:
  "(\<not> truthy t \<longrightarrow> setTitle this t w = (Normal, w)) \<and>
   (truthy t \<longrightarrow> title (objs (snd (setTitle this t w)) this) = t) \<and>
   (truthy t \<longrightarrow> elm (objs w this) = Some [e] \<longrightarrow> dialog (elements w e) \<noteq> None \<longrightarrow>
      (\<exists>w' d'. setTitle this t w = (Normal, w') \<and> title (objs w' this) = t \<and>
         dialog (elements w' e) = Some d' \<and> dlg_title d' = t))"
proof -
  have a: "objs (jq_dialog_option_title t j s) = objs s" for j s
    using jq_dialog_option_title_page [of s t j] by (simp add: page_change_def)
  have b: "dialog (elements (jq_dialog_option_title t [e] s) e) =
             map_option (\<lambda>d. d\<lparr>dlg_title := t\<rparr>) (dialog (elements s e))" for s
    by (simp add: jq_dialog_option_title_def upd_def)
  have 1: "\<not> truthy t \<longrightarrow> setTitle this t w = (Normal, w)"
    by (simp add: setTitle_def)
  have 2: "truthy t \<longrightarrow> title (objs (snd (setTitle this t w)) this) = t"
    by (simp add: setTitle_def Let_def a upd_frame_def split: option.splits)
  have 3: "truthy t \<longrightarrow> elm (objs w this) = Some [e] \<longrightarrow> dialog (elements w e) \<noteq> None \<longrightarrow>
      (\<exists>w' d'. setTitle this t w = (Normal, w') \<and> title (objs w' this) = t \<and>
         dialog (elements w' e) = Some d' \<and> dlg_title d' = t)"
    by (auto simp: setTitle_def Let_def a b upd_frame_def)
  show ?thesis using 1 2 3 by blast
qed

theorem setTitle_effect_witness:
  "setTitle 0 None desk = (Normal, desk) \<and>
   setTitle 0 (Some []) desk = (Normal, desk) \<and>
   (\<exists>w' d'. setTitle 0 (Some ''Editor'') desk = (Normal, w') \<and>
      title (objs w' 0) = Some ''Editor'' \<and> dialog (elements w' 2) = Some d' \<and>
      dlg_title d' = Some ''Editor'')"
  using setTitle_effect [of None 0 desk 2] setTitle_effect [of "Some []" 0 desk 2]
    setTitle_effect [of "Some ''Editor''" 0 desk 2]
  by (simp add: truthy_def desk_frame)

subsection \<open>close\<close>





text \<open>
  Claim C9. \<open>close\<close> does not write the registry: after \<open>close\<close> the registry is the one
  the teardown hook left, and for an instance without a hook it is the registry from
  before the call, with the entry of the closed frame still in it.
\<close>

theorem close_keeps_registry:
  "frames (snd (close D this w)) = frames (snd (teardown D this w)) \<and>
   (\<not> (has_own_destructor (objs w this) \<and> destructor_is_function (objs w this)) \<longrightarrow>
      frames (snd (close D this w)) = frames w)"
proof -
  have a: "frames (jq_show j s) = frames s" "frames (jq_remove j s) = frames s"
    "frames (jq_appendTo j ps s) = frames s" "frames (jq_dialog_destroy j s) = frames s"
    for j ps s
    using jq_show_page [of s j] jq_remove_page [of s j] jq_appendTo_page [of s j ps]
      jq_dialog_destroy_page [of s j]
    by (simp_all add: page_change_def)
  have "frames (snd (close D this w)) = frames (snd (teardown D this w))"
    by (auto simp: close_def a split: prod.splits outcome.splits option.splits)
  then show ?thesis by (auto simp: teardown_def)
qed

theorem close_keeps_registry_witness:
  "frames (snd (close no_hook 0 desk)) = Some [(''code'', 0), (''BaseFrame1'', 3)]"
  using close_keeps_registry [of no_hook 0 desk]
  by (simp add: teardown_def has_own_destructor_def desk_frame)

text \<open>
  Claim C10. If the instance has a \<open>destructor\<close> of its own that is a function, and the
  call throws, leaving the state \<open>w1\<close>, then \<open>close\<close> throws the same exception and its
  final state is \<open>w1\<close> with the call recorded: the elements (so the dialog widget, the
  parent and the place in the document of the frame's element), the registry and the frame
  objects are those of \<open>w1\<close>.
\<close>

theorem close_aborts_when_destructor_throws:
  assumes "has_own_destructor (objs w this)" "destructor_is_function (objs w this)"
      and "D this w = (Throw x, w1)"
  shows "close D this w = (Throw x, w1\<lparr>calls := calls w @ [Destructor this]\<rparr>) \<and>
         elements (snd (close D this w)) = elements w1 \<and>
         frames (snd (close D this w)) = frames w1 \<and>
         objs (snd (close D this w)) = objs w1"
  using assms by (simp add: close_def teardown_def call_hook_def)

theorem close_aborts_when_destructor_throws_witness:
  "close failing_hook 0 hooked =
     (Throw (Exception ''failed''), hooked\<lparr>calls := calls hooked @ [Destructor 0]\<rparr>) \<and>
   elements (snd (close failing_hook 0 hooked)) = elements hooked \<and>
   frames (snd (close failing_hook 0 hooked)) = frames hooked \<and>
   objs (snd (close failing_hook 0 hooked)) = objs hooked"
  using close_aborts_when_destructor_throws
    [OF hooked_frame, of failing_hook "Exception ''failed''" hooked]
  by (simp add: failing_hook_def)

subsection \<open>The update broadcast\<close>







subsection \<open>init: the steps\<close>















subsection \<open>Generated identifiers\<close>






subsection \<open>init and popup\<close>



subsection \<open>init on an element of the page\<close>






end
